theory Spec2Isabelle
  imports Main "HOL-Library.Word"
begin

unbundle bit_operations_syntax

section \<open>The tracing client of chapter 9: correlation utility and request loop\<close>

text \<open>
  The development follows \<^verbatim>\<open>chapter/9/tracing/client/main.go\<close>. Go strings are byte
  sequences and \<^verbatim>\<open>len\<close> counts bytes, so a Go string is a \<^typ>\<open>string\<close> here.
  A Go panic is a value of type \<open>go_panic\<close>; a function that can panic returns
  \<open>go_panic + 'a\<close>.
\<close>

subsection \<open>Panics and slicing\<close>

datatype go_panic =
    SliceBoundsOutOfRange nat nat   \<comment> \<open>\<^verbatim>\<open>s[i:]\<close> with \<^verbatim>\<open>i > len(s)\<close>: the index and the length\<close>
  | IllegalFormatBase               \<comment> \<open>\<^verbatim>\<open>strconv: illegal AppendInt/FormatInt base\<close>\<close>
  | ErrorPanic string               \<comment> \<open>\<^verbatim>\<open>panic(err)\<close> with the error's text\<close>

text \<open>The slice expression \<^verbatim>\<open>s[i:]\<close>: Go panics when \<^verbatim>\<open>i\<close> is beyond the length.\<close>

definition slice_from :: "string \<Rightarrow> nat \<Rightarrow> go_panic + string" where
  "slice_from s i =
     (if i \<le> length s then Inr (drop i s) else Inl (SliceBoundsOutOfRange i (length s)))"

subsection \<open>\<^verbatim>\<open>strconv.ParseUint\<close>\<close>

text \<open>
  The standard library's parser, as the client calls it. Bytes are \<^typ>\<open>8 word\<close>, the
  accumulator is a \<^typ>\<open>64 word\<close> whose multiplication and addition wrap, and the
  overflow tests are the library's own (\<^verbatim>\<open>n >= cutoff\<close>, \<^verbatim>\<open>n1 < n || n1 > maxVal\<close>).
  The branch for base 0 (prefix inference and underscores) is not translated: the
  client passes base 16, and the model reports \<open>ErrBase\<close> for every base outside 2..36.
\<close>

type_synonym byte = "8 word"
type_synonym uint64 = "64 word"

datatype NumError = ErrSyntax | ErrRange | ErrBase | ErrBitSize

definition byte_of :: "char \<Rightarrow> byte" where
  "byte_of c = of_char c"

text \<open>\<^verbatim>\<open>lower(c) = c | ('x' - 'X')\<close>\<close>

definition lower :: "byte \<Rightarrow> byte" where
  "lower c = c OR (byte_of CHR ''x'' - byte_of CHR ''X'')"

text \<open>The \<^verbatim>\<open>switch\<close> of the loop body that turns a byte into a digit value.\<close>

definition digit_val :: "byte \<Rightarrow> byte option" where
  "digit_val c =
     (if byte_of CHR ''0'' \<le> c \<and> c \<le> byte_of CHR ''9'' then Some (c - byte_of CHR ''0'')
      else if byte_of CHR ''a'' \<le> lower c \<and> lower c \<le> byte_of CHR ''z''
        then Some (lower c - byte_of CHR ''a'' + 10)
      else None)"

fun parse_loop :: "int \<Rightarrow> uint64 \<Rightarrow> uint64 \<Rightarrow> uint64 \<Rightarrow> string \<Rightarrow> uint64 \<times> NumError option" where
  "parse_loop base cutoff maxVal n [] = (n, None)"
| "parse_loop base cutoff maxVal n (c # cs) =
     (case digit_val (byte_of c) of
        None \<Rightarrow> (0, Some ErrSyntax)
      | Some d \<Rightarrow>
          if d \<ge> (of_int base :: byte) then (0, Some ErrSyntax)
          else if n \<ge> cutoff then (maxVal, Some ErrRange)
          else
            (let n' = n * of_int base;
                 n1 = n' + ucast d
             in if n1 < n' \<or> n1 > maxVal then (maxVal, Some ErrRange)
                else parse_loop base cutoff maxVal n1 cs))"

definition maxUint64 :: uint64 where
  "maxUint64 = - 1"

definition ParseUint :: "string \<Rightarrow> int \<Rightarrow> int \<Rightarrow> uint64 \<times> NumError option" where
  "ParseUint s base bitSize =
     (if s = [] then (0, Some ErrSyntax)
      else if \<not> (2 \<le> base \<and> base \<le> 36) then (0, Some ErrBase)
      else if bitSize < 0 \<or> bitSize > 64 then (0, Some ErrBitSize)
      else
        (let bits = (if bitSize = 0 then 64 else bitSize);
             cutoff = maxUint64 div of_int base + 1;
             maxVal = push_bit (nat bits) 1 - 1
         in parse_loop base cutoff maxVal 0 s))"

subsection \<open>\<^verbatim>\<open>strconv.FormatUint\<close>\<close>

definition digits :: string where
  "digits = ''0123456789abcdefghijklmnopqrstuvwxyz''"

text \<open>
  The loop of \<^verbatim>\<open>formatBits\<close> for a general base: the buffer is filled from its end, so
  each digit is put in front of the ones already written. \<^verbatim>\<open>u\<close> is a \<^verbatim>\<open>uint64\<close>
  that only shrinks, so it is read as a natural number. The test \<open>2 \<le> b\<close> is what
  the caller has checked before the loop starts.
\<close>

function formatBits :: "nat \<Rightarrow> nat \<Rightarrow> string \<Rightarrow> string" where
  "formatBits u b a =
     (if 2 \<le> b \<and> b \<le> u then formatBits (u div b) b (digits ! (u mod b) # a)
      else digits ! u # a)"
  by pat_completeness auto
termination
  by (relation "measure (\<lambda>(u, b, a). u)") auto

definition FormatUint :: "uint64 \<Rightarrow> int \<Rightarrow> go_panic + string" where
  "FormatUint i base =
     (if base < 2 \<or> base > 36 then Inl IllegalFormatBase
      else Inr (formatBits (unat i) (nat base) []))"

subsection \<open>\<^verbatim>\<open>convertTraceID\<close>\<close>

definition convertTraceID :: "string \<Rightarrow> go_panic + string" where
  "convertTraceID id0 =
     (if length id0 < 16 then Inr ''''
      else
        (case (if length id0 > 16 then slice_from id0 16 else Inr id0) of
           Inl p \<Rightarrow> Inl p
         | Inr id1 \<Rightarrow>
             (case ParseUint id1 16 64 of
                (intValue, Some err) \<Rightarrow> Inr ''''
              | (intValue, None) \<Rightarrow> FormatUint intValue 10)))"

subsection \<open>What the specification says the utility computes\<close>

text \<open>
  These definitions follow the specification's words, not the code: the hexadecimal
  digits, the number denoted by a hexadecimal string, the last 16 characters of a
  string, and the base-10 rendering of a number.
\<close>

definition hex_table :: "(char \<times> nat) list" where
  "hex_table =
     [(CHR ''0'', 0), (CHR ''1'', 1), (CHR ''2'', 2), (CHR ''3'', 3), (CHR ''4'', 4),
      (CHR ''5'', 5), (CHR ''6'', 6), (CHR ''7'', 7), (CHR ''8'', 8), (CHR ''9'', 9),
      (CHR ''a'', 10), (CHR ''b'', 11), (CHR ''c'', 12), (CHR ''d'', 13), (CHR ''e'', 14),
      (CHR ''f'', 15),
      (CHR ''A'', 10), (CHR ''B'', 11), (CHR ''C'', 12), (CHR ''D'', 13), (CHR ''E'', 14),
      (CHR ''F'', 15)]"

definition is_hex_digit :: "char \<Rightarrow> bool" where
  "is_hex_digit c = (map_of hex_table c \<noteq> None)"

definition hex_digit_value :: "char \<Rightarrow> nat" where
  "hex_digit_value c = (case map_of hex_table c of Some v \<Rightarrow> v | None \<Rightarrow> 0)"

definition hex_value :: "string \<Rightarrow> nat" where
  "hex_value s = foldl (\<lambda>n c. 16 * n + hex_digit_value c) 0 s"

definition last16 :: "string \<Rightarrow> string" where
  "last16 s = drop (length s - 16) s"

function decimal_string :: "nat \<Rightarrow> string" where
  "decimal_string n =
     (if n < 10 then [''0123456789'' ! n]
      else decimal_string (n div 10) @ [''0123456789'' ! (n mod 10)])"
  by pat_completeness auto
termination
  by (relation "measure (\<lambda>n. n)") auto

text \<open>
  The decimal string of the unsigned 64-bit value of the last 16 hexadecimal characters.
\<close>

definition spec_correlate :: "string \<Rightarrow> string" where
  "spec_correlate s = decimal_string (hex_value (last16 s) mod 2 ^ 64)"

subsection \<open>The process: effects, outcomes and the environment\<close>

text \<open>
  The calls into the tracing SDK, the HTTP client, the logger and the runtime are
  recorded, in order, as effects of a world. A call's outcome is a normal return, a
  panic that unwinds the stack (running deferred calls on its way), or
  \<^verbatim>\<open>os.Exit\<close>, which ends the process at once and runs no deferred call:
  \<^verbatim>\<open>log.Fatalf\<close> is a log line followed by \<^verbatim>\<open>os.Exit(1)\<close>.
\<close>

datatype event_option = WithAttributes "(string \<times> string) list"

datatype effect =
    ExporterCreated string                    \<comment> \<open>\<^verbatim>\<open>otlptrace.New\<close> succeeded, for the endpoint\<close>
  | ResourceCreated string                    \<comment> \<open>\<^verbatim>\<open>resource.New\<close> succeeded, with the service name\<close>
  | PropagatorSet
  | TracerProviderSet
  | SpanStarted nat "nat option" string       \<comment> \<open>\<^verbatim>\<open>tracer.Start\<close>: the span, its parent, its name\<close>
  | RequestSent nat string                    \<comment> \<open>the request goes out under the span's context, to a URL\<close>
  | ErrorRecorded nat string                  \<comment> \<open>\<^verbatim>\<open>span.RecordError\<close>\<close>
  | BodyClosed
  | EventAdded nat string "event_option list" \<comment> \<open>\<^verbatim>\<open>span.AddEvent\<close>\<close>
  | SpanEnded nat                             \<comment> \<open>\<^verbatim>\<open>span.End\<close>\<close>
  | Slept nat                                 \<comment> \<open>\<^verbatim>\<open>time.Sleep\<close>, in seconds\<close>
  | ExporterShutdown nat                      \<comment> \<open>\<^verbatim>\<open>traceExp.Shutdown\<close> with a deadline in seconds\<close>
  | ErrorHandled string                       \<comment> \<open>\<^verbatim>\<open>otel.Handle\<close>\<close>
  | LogFatal string                           \<comment> \<open>the line \<^verbatim>\<open>log.Fatalf\<close> prints\<close>

datatype 'a outcome = Return 'a | Panicking go_panic | Exited nat

record world =
  trace :: "effect list"
  spans :: nat      \<comment> \<open>how many spans the tracer has started: the next span's identity\<close>

definition emit :: "effect \<Rightarrow> world \<Rightarrow> world" where
  "emit e w = w\<lparr>trace := trace w @ [e]\<rparr>"

text \<open>What one iteration's two fallible calls answer.\<close>

record response =
  new_request_err :: "string option"   \<comment> \<open>the error of \<^verbatim>\<open>http.NewRequestWithContext\<close>\<close>
  do_err :: "string option"            \<comment> \<open>the error of \<^verbatim>\<open>client.Do\<close>\<close>

record env =
  OTEL_EXPORTER_OTLP_ENDPOINT :: "string option"
  DEMO_SERVER_ENDPOINT :: "string option"
  exporter_err :: "string option"      \<comment> \<open>the error of \<^verbatim>\<open>otlptrace.New\<close>\<close>
  resource_err :: "string option"      \<comment> \<open>the error of \<^verbatim>\<open>resource.New\<close>\<close>
  shutdown_err :: "string option"      \<comment> \<open>the error of \<^verbatim>\<open>traceExp.Shutdown\<close>\<close>
  responses :: "response list"         \<comment> \<open>the answers to the successive requests\<close>

definition succeeded :: "response \<Rightarrow> bool" where
  "succeeded r = (new_request_err r = None \<and> do_err r = None)"

subsection \<open>\<^verbatim>\<open>handleErr\<close>, \<^verbatim>\<open>initTracer\<close>, \<^verbatim>\<open>initTraceProvider\<close>\<close>

definition handleErr :: "string option \<Rightarrow> string \<Rightarrow> world \<Rightarrow> unit outcome \<times> world" where
  "handleErr err message w =
     (case err of
        None \<Rightarrow> (Return (), w)
      | Some e \<Rightarrow> (Exited 1, emit (LogFatal (message @ '': '' @ e)) w))"

text \<open>The function value \<^verbatim>\<open>initTracer\<close> returns: shut the exporter down, hand an error on.\<close>

definition closeTraces :: "env \<Rightarrow> nat \<Rightarrow> world \<Rightarrow> world" where
  "closeTraces E deadline w =
     (let w1 = emit (ExporterShutdown deadline) w
      in case shutdown_err E of None \<Rightarrow> w1 | Some e \<Rightarrow> emit (ErrorHandled e) w1)"

definition initTracer :: "env \<Rightarrow> string \<Rightarrow> world \<Rightarrow> (nat \<Rightarrow> world \<Rightarrow> world) outcome \<times> world" where
  "initTracer E otelAgentAddr w =
     (case handleErr (exporter_err E) ''Failed to create the collector trace exporter'' w of
        (Return u, w1) \<Rightarrow>
          (let w2 = emit (ExporterCreated otelAgentAddr) w1
           in case handleErr (resource_err E) ''failed to create resource'' w2 of
                (Return u, w3) \<Rightarrow>
                  (let w4 = emit (ResourceCreated ''demo-client'') w3;
                       w5 = emit PropagatorSet w4;
                       w6 = emit TracerProviderSet w5
                   in (Return (closeTraces E), w6))
              | (Panicking p, w3) \<Rightarrow> (Panicking p, w3)
              | (Exited c, w3) \<Rightarrow> (Exited c, w3))
      | (Panicking p, w1) \<Rightarrow> (Panicking p, w1)
      | (Exited c, w1) \<Rightarrow> (Exited c, w1))"

text \<open>The returned shutdown function calls \<^verbatim>\<open>closeTraces\<close> under a one-second timeout.\<close>

definition initTraceProvider :: "env \<Rightarrow> world \<Rightarrow> (world \<Rightarrow> world) outcome \<times> world" where
  "initTraceProvider E w =
     (let otelAgentAddr =
            (case OTEL_EXPORTER_OTLP_ENDPOINT E of Some a \<Rightarrow> a | None \<Rightarrow> ''0.0.0.0:4317'')
      in case initTracer E otelAgentAddr w of
           (Return close, w1) \<Rightarrow> (Return (close 1), w1)
         | (Panicking p, w1) \<Rightarrow> (Panicking p, w1)
         | (Exited c, w1) \<Rightarrow> (Exited c, w1))"

subsection \<open>The tracer and the instrumented transport\<close>

text \<open>
  \<^verbatim>\<open>tracer.Start(ctx, name)\<close>: a new span, identified by the number of spans started
  before it, whose parent is the span that the context carries (none for
  \<^verbatim>\<open>context.Background()\<close>). The transport's spans come from the same global provider
  as the loop's.
\<close>

definition tracer_Start :: "nat option \<Rightarrow> string \<Rightarrow> world \<Rightarrow> nat \<times> world" where
  "tracer_Start ctx name w =
     (spans w, (emit (SpanStarted (spans w) ctx name) w)\<lparr>spans := Suc (spans w)\<rparr>)"

text \<open>
  The client's \<^verbatim>\<open>Transport\<close> is \<^verbatim>\<open>otelhttp.NewTransport(http.DefaultTransport)\<close>. As the
  library documents it, its \<^verbatim>\<open>RoundTrip\<close> starts a client span of its own in the
  request's context, named \<^verbatim>\<open>"HTTP "\<close> and the method, and sends the request under
  that span. When the underlying transport fails, it records the error on the span,
  ends the span and returns the error. Otherwise it returns the response with the body
  wrapped, so that closing the body ends the span: the response is represented here by
  the span its body holds.
\<close>

definition RoundTrip :: "nat option \<Rightarrow> string \<Rightarrow> string option \<Rightarrow> world \<Rightarrow> (string + nat) \<times> world" where
  "RoundTrip ctx url err w =
     (let (span, w1) = tracer_Start ctx ''HTTP GET'' w;
          w2 = emit (RequestSent span url) w1
      in case err of
           Some e \<Rightarrow> (Inl e, emit (SpanEnded span) (emit (ErrorRecorded span e) w2))
         | None \<Rightarrow> (Inr span, w2))"

text \<open>
  \<^verbatim>\<open>client.Do\<close> hands the request to the transport. The answers of the environment are
  those of a request that takes one round trip.
\<close>

definition client_Do :: "nat option \<Rightarrow> string \<Rightarrow> string option \<Rightarrow> world \<Rightarrow> (string + nat) \<times> world" where
  "client_Do ctx url err w = RoundTrip ctx url err w"

text \<open>\<^verbatim>\<open>res.Body.Close()\<close> on the wrapped body: end the transport's span, close the body.\<close>

definition Body_Close :: "nat \<Rightarrow> world \<Rightarrow> world" where
  "Body_Close span w = emit BodyClosed (emit (SpanEnded span) w)"

subsection \<open>\<^verbatim>\<open>makeRequest\<close> and \<^verbatim>\<open>SuccessfullyFinishedRequestEvent\<close>\<close>

definition makeRequest :: "env \<Rightarrow> nat option \<Rightarrow> response \<Rightarrow> world \<Rightarrow> unit outcome \<times> world" where
  "makeRequest E ctx r w =
     (let demoServerAddr =
            (case DEMO_SERVER_ENDPOINT E of Some a \<Rightarrow> a | None \<Rightarrow> ''http://0.0.0.0:7080/hello'');
          (o1, w1) =
            (if new_request_err r \<noteq> None
             then handleErr (new_request_err r) ''failed to http request'' w
             else (Return (), w))
      in case o1 of
           Return u \<Rightarrow>
             (case client_Do ctx demoServerAddr (do_err r) w1 of
                (Inl e, w2) \<Rightarrow> (Panicking (ErrorPanic e), w2)
              | (Inr res, w2) \<Rightarrow> (Return (), Body_Close res w2))
         | Panicking p \<Rightarrow> (Panicking p, w1)
         | Exited c \<Rightarrow> (Exited c, w1))"

definition SuccessfullyFinishedRequestEvent :: "nat \<Rightarrow> event_option list \<Rightarrow> world \<Rightarrow> world" where
  "SuccessfullyFinishedRequestEvent span opts w =
     (let opts' = opts @ [WithAttributes [(''someKey'', ''someValue'')]]
      in emit (EventAdded span ''successfully finished request operation'' opts') w)"

subsection \<open>\<^verbatim>\<open>continuouslySendRequests\<close>\<close>

text \<open>
  The body of the \<^verbatim>\<open>for\<close> loop: one iteration. The span is started in
  \<^verbatim>\<open>context.Background()\<close>, and the request is made in the context that carries it.
\<close>

definition loop_body :: "env \<Rightarrow> response \<Rightarrow> world \<Rightarrow> unit outcome \<times> world" where
  "loop_body E r w =
     (let (span, w1) = tracer_Start None ''ExecuteRequest'' w
      in case makeRequest E (Some span) r w1 of
           (Return u, w2) \<Rightarrow>
             (let w3 = SuccessfullyFinishedRequestEvent span [] w2;
                  w4 = emit (SpanEnded span) w3;
                  w5 = emit (Slept 1) w4
              in (Return (), w5))
         | (Panicking p, w2) \<Rightarrow> (Panicking p, w2)
         | (Exited c, w2) \<Rightarrow> (Exited c, w2))"

text \<open>
  The loop has no exit of its own. It is run against the answers of the environment to
  the successive requests; when they are used up the loop is still running, which is
  the result \<open>None\<close>. \<open>Some\<close> is the panic or exit that stopped it.
\<close>

fun continuouslySendRequests :: "env \<Rightarrow> response list \<Rightarrow> world \<Rightarrow> unit outcome option \<times> world" where
  "continuouslySendRequests E [] w = (None, w)"
| "continuouslySendRequests E (r # rs) w =
     (case loop_body E r w of
        (Return u, w1) \<Rightarrow> continuouslySendRequests E rs w1
      | (Panicking p, w1) \<Rightarrow> (Some (Panicking p), w1)
      | (Exited c, w1) \<Rightarrow> (Some (Exited c), w1))"

subsection \<open>\<^verbatim>\<open>main\<close>\<close>

text \<open>
  How the process stands at the end of the observed run: still in the loop, or
  terminated with an exit code. A panic that leaves \<^verbatim>\<open>main\<close> runs the deferred
  \<^verbatim>\<open>shutdown\<close> and then ends the process with code 2; \<^verbatim>\<open>os.Exit\<close> ends it with its
  own code and runs nothing.
\<close>

datatype status = StillRunning | Terminated nat

definition initial_world :: world where
  "initial_world = \<lparr>trace = [], spans = 0\<rparr>"

definition main :: "env \<Rightarrow> status \<times> world" where
  "main E =
     (case initTraceProvider E initial_world of
        (Return shutdown, w1) \<Rightarrow>
          (case continuouslySendRequests E (responses E) w1 of
             (None, w2) \<Rightarrow> (StillRunning, w2)
           | (Some (Return u), w2) \<Rightarrow> (Terminated 0, shutdown w2)
           | (Some (Panicking p), w2) \<Rightarrow> (Terminated 2, shutdown w2)
           | (Some (Exited c), w2) \<Rightarrow> (Terminated c, w2))
      | (Panicking p, w1) \<Rightarrow> (Terminated 2, w1)
      | (Exited c, w1) \<Rightarrow> (Terminated c, w1))"

subsection \<open>Reading a trace\<close>

fun is_shutdown :: "effect \<Rightarrow> bool" where
  "is_shutdown (ExporterShutdown d) = True"
| "is_shutdown e = False"


fun is_start_named :: "string \<Rightarrow> effect \<Rightarrow> bool" where
  "is_start_named m (SpanStarted i p n) = (n = m)"
| "is_start_named m e = False"




fun is_request :: "effect \<Rightarrow> bool" where
  "is_request (RequestSent i u) = True"
| "is_request e = False"



text \<open>What a step added to the trace.\<close>

definition added :: "world \<Rightarrow> world \<Rightarrow> effect list" where
  "added w w' = drop (length (trace w)) (trace w')"

definition count :: "(effect \<Rightarrow> bool) \<Rightarrow> effect list \<Rightarrow> nat" where
  "count P es = length (filter P es)"

definition initialized :: "env \<Rightarrow> bool" where
  "initialized E = (exporter_err E = None \<and> resource_err E = None)"

subsection \<open>Names for the defaults, and sample environments\<close>

text \<open>The two addresses as the code chooses them: the variable's value, or the default.\<close>

definition otelAgentAddr :: "env \<Rightarrow> string" where
  "otelAgentAddr E =
     (case OTEL_EXPORTER_OTLP_ENDPOINT E of Some a \<Rightarrow> a | None \<Rightarrow> ''0.0.0.0:4317'')"

definition demoServerAddr :: "env \<Rightarrow> string" where
  "demoServerAddr E =
     (case DEMO_SERVER_ENDPOINT E of Some a \<Rightarrow> a | None \<Rightarrow> ''http://0.0.0.0:7080/hello'')"

text \<open>
  Three answers of the environment to a request: the server responds; the connection is
  refused (\<^verbatim>\<open>client.Do\<close> fails); the URL does not parse
  (\<^verbatim>\<open>http.NewRequestWithContext\<close> fails).
\<close>

definition ok_response :: response where
  "ok_response = \<lparr>new_request_err = None, do_err = None\<rparr>"

definition refused_response :: response where
  "refused_response = \<lparr>new_request_err = None, do_err = Some ''connection refused''\<rparr>"

definition bad_url_response :: response where
  "bad_url_response = \<lparr>new_request_err = Some ''missing protocol scheme'', do_err = None\<rparr>"

text \<open>An environment in which the exporter and the resource are created without error.\<close>

definition demo_env :: "string option \<Rightarrow> response list \<Rightarrow> env" where
  "demo_env url rs =
     \<lparr>OTEL_EXPORTER_OTLP_ENDPOINT = None, DEMO_SERVER_ENDPOINT = url, exporter_err = None,
      resource_err = None, shutdown_err = None, responses = rs\<rparr>"

section \<open>The correlation utility\<close>

text \<open>
  The equations of the two recursive functions are unfolded where a proof asks for them,
  not by the simplifier on its own.
\<close>

declare formatBits.simps [simp del] decimal_string.simps [simp del]

lemmas convertTraceID_eval =
  convertTraceID_def slice_from_def ParseUint_def maxUint64_def digit_val_def byte_of_def
  lower_def FormatUint_def digits_def formatBits.simps word_le_nat_alt word_less_nat_alt

lemmas spec_eval =
  spec_correlate_def hex_value_def last16_def hex_digit_value_def hex_table_def
  is_hex_digit_def decimal_string.simps

subsection \<open>The parser on hexadecimal digits\<close>

text \<open>
  The parser's digit test and the specification's table of hexadecimal digits agree on
  every byte: both facts are checked on all 256 characters.
\<close>

lemma digit_val_not_hex_all:
  "\<forall>c::char. \<not> is_hex_digit c \<longrightarrow>
     (case digit_val (byte_of c) of None \<Rightarrow> True | Some d \<Rightarrow> d \<ge> 16)"
  by code_simp

lemma digit_val_hex_all:
  "\<forall>c::char. is_hex_digit c \<longrightarrow>
     digit_val (byte_of c) = Some (of_nat (hex_digit_value c)) \<and> hex_digit_value c < 16"
  by code_simp

lemma digit_val_hex:
  "is_hex_digit c \<Longrightarrow> digit_val (byte_of c) = Some (of_nat (hex_digit_value c))"
  using digit_val_hex_all by blast

lemma hex_digit_value_less: "hex_digit_value c < 16"
  using digit_val_hex_all [rule_format, of c]
  by (cases "is_hex_digit c") (auto simp: is_hex_digit_def hex_digit_value_def)

text \<open>A character that is not a hexadecimal digit makes the loop stop with an error.\<close>

lemma parse_loop_not_hex:
  "\<not> list_all is_hex_digit cs \<Longrightarrow> snd (parse_loop 16 cutoff maxVal n cs) \<noteq> None"
proof (induction cs arbitrary: n)
  case Nil
  then show ?case by simp
next
  case (Cons c cs)
  show ?case
  proof (cases "is_hex_digit c")
    case True
    with Cons.prems have "\<not> list_all is_hex_digit cs" by simp
    from Cons.IH [OF this] show ?thesis
      by (simp add: Let_def split: option.split)
  next
    case False
    with digit_val_not_hex_all show ?thesis
      by (auto split: option.split)
  qed
qed

text \<open>One step of the accumulator does not wrap while fewer than 16 digits were read.\<close>

lemma step_word:
  fixes n :: uint64
  assumes "unat n < 16 ^ k" "k < 16" "d < 16"
  shows "unat (n * 16 + of_nat d) = 16 * unat n + d" "unat n < 2 ^ 60"
proof -
  have "(16::nat) ^ k \<le> 16 ^ 15" using assms(2) by (intro power_increasing) auto
  then show b: "unat n < 2 ^ 60" using assms(1) by simp
  then have "16 * unat n + d < 2 ^ 64" using assms(3) by simp
  then show "unat (n * 16 + of_nat d) = 16 * unat n + d"
    by (simp add: unat_word_ariths unat_of_nat assms(3) mult.commute)
qed

lemma ucast_digit:
  assumes "d < 16"
  shows "(ucast (of_nat d :: byte) :: uint64) = of_nat d" "\<not> (16 :: byte) \<le> of_nat d"
proof -
  have tb: "take_bit 8 d = d" using assms by (intro take_bit_nat_eq_self) simp
  have u: "unat (of_nat d :: byte) = d" using assms by (simp add: unat_of_nat)
  show "(ucast (of_nat d :: byte) :: uint64) = of_nat d"
    by (simp add: ucast_eq unsigned_of_nat tb)
  show "\<not> (16 :: byte) \<le> of_nat d"
    using assms by (simp add: word_le_nat_alt u)
qed

text \<open>
  On at most 16 hexadecimal digits the loop neither overflows nor fails, and its result
  is the number the digits denote.
\<close>

lemma parse_loop_hex:
  "list_all is_hex_digit cs \<Longrightarrow> unat n < 16 ^ k \<Longrightarrow> k + length cs \<le> 16 \<Longrightarrow>
   parse_loop 16 (2 ^ 60) (- 1) n cs =
     (of_nat (foldl (\<lambda>n c. 16 * n + hex_digit_value c) (unat n) cs), None)"
proof (induction cs arbitrary: n k)
  case Nil
  then show ?case by simp
next
  case (Cons c cs)
  let ?d = "hex_digit_value c"
  let ?n1 = "n * 16 + of_nat ?d"
  have d: "?d < 16" by (rule hex_digit_value_less)
  have k: "k < 16" using Cons.prems(3) by simp
  have dv: "digit_val (byte_of c) = Some (of_nat ?d)"
    using Cons.prems(1) by (simp add: digit_val_hex)
  have n1: "unat ?n1 = 16 * unat n + ?d" and n60: "unat n < 2 ^ 60"
    using step_word [OF Cons.prems(2) k d] by simp_all
  have n16: "unat (n * 16) = 16 * unat n"
    using step_word(1) [OF Cons.prems(2) k, of 0] by simp
  have lt: "\<not> ?n1 < n * 16" by (simp add: word_less_nat_alt n1 n16)
  have cut: "\<not> (2 ^ 60 :: uint64) \<le> n" using n60 by (simp add: word_le_nat_alt)
  have "Suc (unat n) \<le> 16 ^ k" using Cons.prems(2) by simp
  then have "16 * Suc (unat n) \<le> 16 * 16 ^ k" by (rule mult_le_mono2)
  then have bound: "unat ?n1 < 16 ^ Suc k" using d n1 by simp
  have ih: "parse_loop 16 (2 ^ 60) (- 1) ?n1 cs =
     (of_nat (foldl (\<lambda>n c. 16 * n + hex_digit_value c) (unat ?n1) cs), None)"
    using Cons.prems by (intro Cons.IH [OF _ bound]) simp_all
  have "parse_loop 16 (2 ^ 60) (- 1) n (c # cs) = parse_loop 16 (2 ^ 60) (- 1) ?n1 cs"
    using lt cut by (simp add: dv ucast_digit [OF d] Let_def)
  then show ?case by (simp only: ih n1 foldl_Cons)
qed

lemma hex_value_bound:
  "foldl (\<lambda>n c. 16 * n + hex_digit_value c) a cs < (Suc a) * 16 ^ length cs"
proof (induction cs arbitrary: a)
  case Nil
  then show ?case by simp
next
  case (Cons c cs)
  let ?a' = "16 * a + hex_digit_value c"
  have le: "Suc ?a' \<le> 16 * Suc a"
    using hex_digit_value_less [of c] by simp
  have "foldl (\<lambda>n c. 16 * n + hex_digit_value c) ?a' cs < Suc ?a' * 16 ^ length cs"
    by (rule Cons.IH)
  also have "\<dots> \<le> (16 * Suc a) * 16 ^ length cs"
    using le by (rule mult_le_mono1)
  also have "\<dots> = Suc a * 16 ^ length (c # cs)" by (simp add: algebra_simps)
  finally show ?case by simp
qed

lemma ParseUint_hex:
  assumes "list_all is_hex_digit s" "s \<noteq> []" "length s \<le> 16"
  shows "ParseUint s 16 64 = (of_nat (hex_value s), None)" "hex_value s < 2 ^ 64"
proof -
  have c: "(maxUint64 div 16 + 1 :: uint64) = 2 ^ 60" by (simp add: maxUint64_def)
  have m: "(push_bit (nat 64) 1 - 1 :: uint64) = - 1" by simp
  have "ParseUint s 16 64 = parse_loop 16 (2 ^ 60) (- 1) 0 s"
    using assms(2) unfolding ParseUint_def Let_def c [symmetric] m [symmetric] by simp
  then show "ParseUint s 16 64 = (of_nat (hex_value s), None)"
    using assms parse_loop_hex [of s 0 0] by (simp only: hex_value_def) simp
  have "hex_value s < 16 ^ length s"
    using hex_value_bound [of 0 s] by (simp add: hex_value_def)
  also have "\<dots> \<le> (16::nat) ^ 16" using assms(3) by (intro power_increasing) auto
  finally show "hex_value s < 2 ^ 64" by simp
qed

subsection \<open>The formatter in base 10\<close>

lemma digits_decimal: "d < 10 \<Longrightarrow> digits ! d = ''0123456789'' ! d"
proof -
  assume "d < 10"
  then have "d \<in> {0, 1, 2, 3, 4, 5, 6, 7, 8, 9}" by auto
  then show ?thesis by (auto simp: digits_def)
qed

lemma formatBits_decimal: "formatBits u 10 a = decimal_string u @ a"
proof (induction u "10::nat" a rule: formatBits.induct)
  case (1 u a)
  show ?case
  proof (cases "10 \<le> u")
    case True
    with 1 show ?thesis
      by (subst formatBits.simps, subst decimal_string.simps) (simp add: digits_decimal)
  next
    case False
    then show ?thesis
      by (subst formatBits.simps, subst decimal_string.simps) (simp add: digits_decimal)
  qed
qed

subsection \<open>What \<^verbatim>\<open>convertTraceID\<close> computes\<close>

text \<open>
  On hexadecimal identifiers of 16 to 32 characters the answer is the decimal string of
  what is left after the first 16 characters are dropped (of the whole identifier when
  it has exactly 16).
\<close>

lemma convertTraceID_hex_le_32:
  assumes "list_all is_hex_digit s" "16 \<le> length s" "length s \<le> 32"
  shows "convertTraceID s =
     Inr (decimal_string (hex_value (if length s = 16 then s else drop 16 s)))"
proof -
  let ?t = "if length s = 16 then s else drop 16 s"
  have t: "list_all is_hex_digit ?t" "?t \<noteq> []" "length ?t \<le> 16"
    using assms by (auto simp: list_all_iff dest: in_set_dropD)
  have u: "unat (of_nat (hex_value ?t) :: uint64) = hex_value ?t"
    using ParseUint_hex(2) [OF t] by (simp add: unat_of_nat)
  have "convertTraceID s = FormatUint (of_nat (hex_value ?t)) 10"
    using assms(2) ParseUint_hex(1) [OF t]
    by (auto simp: convertTraceID_def slice_from_def)
  then show ?thesis
    by (simp add: FormatUint_def u formatBits_decimal)
qed

text \<open>
  For the two lengths the client passes, 16 (a span identifier) and 32 (a trace
  identifier), that is the decimal string of the last 16 characters.
\<close>

lemma convertTraceID_16_or_32:
  assumes "list_all is_hex_digit s" "length s = 16 \<or> length s = 32"
  shows "convertTraceID s = Inr (spec_correlate s)"
proof -
  have e: "(if length s = 16 then s else drop 16 s) = last16 s"
    using assms(2) by (auto simp: last16_def)
  have l: "list_all is_hex_digit (last16 s)" "last16 s \<noteq> []" "length (last16 s) \<le> 16"
    using assms by (auto simp: last16_def list_all_iff dest: in_set_dropD)
  have "convertTraceID s = Inr (decimal_string (hex_value (last16 s)))"
    using convertTraceID_hex_le_32 [of s] assms by (auto simp only: e)
  then show ?thesis
    using ParseUint_hex(2) [OF l] by (simp add: spec_correlate_def)
qed

text \<open>
  When the identifier has 16 characters, or at least 32, the last 16 characters are all
  parsed, and one that is not a hexadecimal digit gives the empty string.
\<close>

lemma convertTraceID_not_hex:
  assumes "\<not> list_all is_hex_digit (last16 s)" "length s = 16 \<or> 32 \<le> length s"
  shows "convertTraceID s = Inr []"
proof -
  let ?t = "if length s = 16 then s else drop 16 s"
  have "set (drop (length s - 16) s) \<subseteq> set (drop 16 s)" if "32 \<le> length s"
    using that by (intro set_drop_subset_set_drop) simp
  then have "set (last16 s) \<subseteq> set ?t"
    using assms(2) by (auto simp: last16_def)
  moreover from assms(1) obtain x where "x \<in> set (last16 s)" "\<not> is_hex_digit x"
    unfolding list_all_iff by blast
  ultimately have t: "\<not> list_all is_hex_digit ?t"
    unfolding list_all_iff by blast
  then have ne: "?t \<noteq> []" by auto
  have "snd (ParseUint ?t 16 64) \<noteq> None"
    using parse_loop_not_hex [OF t] ne by (simp add: ParseUint_def Let_def)
  then show ?thesis
    using assms(2) by (auto simp: convertTraceID_def slice_from_def split: prod.splits option.splits)
qed

subsection \<open>The claims about the utility\<close>

text \<open>
  Claim C7. An identifier shorter than 16 bytes is answered with the empty string: the
  first test of \<^verbatim>\<open>convertTraceID\<close> returns before anything is parsed.
\<close>

theorem convertTraceID_short:
  "length id0 < 16 \<Longrightarrow> convertTraceID id0 = Inr []"
  by (simp add: convertTraceID_def)

theorem convertTraceID_short_witness:
  "length ''0123456789abcde'' < 16 \<and> convertTraceID ''0123456789abcde'' = Inr []"
  using convertTraceID_short [of "''0123456789abcde''"] by simp

text \<open>
  Claim C10. \<^verbatim>\<open>convertTraceID\<close> returns a string on every input and never panics:
  the slice \<^verbatim>\<open>id[16:]\<close> is taken only when the length exceeds 16, the parser reports
  its failures as an error value, and the formatter is called with base 10.
\<close>

theorem convertTraceID_total:
  "\<exists>r. convertTraceID id0 = Inr r"
  by (auto simp: convertTraceID_def slice_from_def FormatUint_def
           split: prod.splits option.splits sum.splits)

text \<open>
  Claim C2, as the specification states it: the 32-character identifier that ends in
  \<^verbatim>\<open>2a\<close> would be answered with \<^verbatim>\<open>"0"\<close>. It is not.
\<close>

theorem convertTraceID_2a_is_not_0:
  "convertTraceID ''0000000000000000000000000000002a'' \<noteq> Inr ''0''"
  by (simp add: convertTraceID_eval)

text \<open>
  Claim C2, amended: the last 16 characters of that identifier are
  \<^verbatim>\<open>000000000000002a\<close>, which is 42, and \<^verbatim>\<open>convertTraceID\<close> returns \<^verbatim>\<open>"42"\<close>.
\<close>

theorem convertTraceID_2a:
  "convertTraceID ''0000000000000000000000000000002a'' = Inr ''42''"
  by (simp add: convertTraceID_eval)

text \<open>
  Claim C3, as the specification states it: the 32-character identifier that ends in
  \<^verbatim>\<open>ff1\<close> would be answered with \<^verbatim>\<open>"255"\<close>. It is not.
\<close>

theorem convertTraceID_ff1_is_not_255:
  "convertTraceID ''00000000000000000000000000000ff1'' \<noteq> Inr ''255''"
  by (simp add: convertTraceID_eval)

text \<open>
  Claim C3, amended: the last 16 characters of that identifier are
  \<^verbatim>\<open>0000000000000ff1\<close>, which is 4081, and \<^verbatim>\<open>convertTraceID\<close> returns \<^verbatim>\<open>"4081"\<close>.
\<close>

theorem convertTraceID_ff1:
  "convertTraceID ''00000000000000000000000000000ff1'' = Inr ''4081''"
  by (simp add: convertTraceID_eval)

text \<open>
  Claim C1 says that an all-hexadecimal identifier of at least 16 characters is answered
  with the decimal string of its last 16 characters. The code takes \<^verbatim>\<open>id[16:]\<close>, which
  drops the first 16 characters instead of keeping the last 16. On the 17-character
  identifier below only the final \<^verbatim>\<open>0\<close> is parsed, and the answer is \<^verbatim>\<open>"0"\<close>, where the
  last 16 characters denote 1311768467463790320.
\<close>

theorem convertTraceID_17_hex_drops_16:
  "16 \<le> length ''0123456789abcdef0''
   \<and> list_all is_hex_digit ''0123456789abcdef0''
   \<and> convertTraceID ''0123456789abcdef0'' = Inr ''0''
   \<and> spec_correlate ''0123456789abcdef0'' = ''1311768467463790320''"
  by (simp add: convertTraceID_eval spec_eval)

text \<open>
  Claim C8 says that an identifier whose last 16 characters hold a character that is
  not a hexadecimal digit is answered with the empty string. On the 17-character
  identifier below the \<^verbatim>\<open>g\<close> is among the last 16 characters, but \<^verbatim>\<open>id[16:]\<close> has
  dropped it: the answer is \<^verbatim>\<open>"0"\<close>.
\<close>

theorem convertTraceID_17_nonhex_dropped:
  "16 \<le> length ''0g000000000000000''
   \<and> \<not> list_all is_hex_digit (last16 ''0g000000000000000'')
   \<and> convertTraceID ''0g000000000000000'' = Inr ''0''"
  by (simp add: convertTraceID_eval spec_eval)

section \<open>The request loop and the process\<close>

subsection \<open>One iteration\<close>

text \<open>The three ways an iteration can go, with what each adds to the trace.\<close>

lemma loop_body_succeeded:
  "succeeded r \<Longrightarrow>
   loop_body E r w =
     (Return (),
      w\<lparr>trace := trace w @
           [SpanStarted (spans w) None ''ExecuteRequest'',
            SpanStarted (Suc (spans w)) (Some (spans w)) ''HTTP GET'',
            RequestSent (Suc (spans w)) (demoServerAddr E),
            SpanEnded (Suc (spans w)),
            BodyClosed,
            EventAdded (spans w) ''successfully finished request operation''
              [WithAttributes [(''someKey'', ''someValue'')]],
            SpanEnded (spans w),
            Slept 1],
         spans := Suc (Suc (spans w))\<rparr>)"
  by (simp add: loop_body_def tracer_Start_def makeRequest_def client_Do_def RoundTrip_def
      Body_Close_def succeeded_def emit_def SuccessfullyFinishedRequestEvent_def
      demoServerAddr_def Let_def)

lemma loop_body_transport_failure:
  "new_request_err r = None \<Longrightarrow> do_err r = Some e \<Longrightarrow>
   loop_body E r w =
     (Panicking (ErrorPanic e),
      w\<lparr>trace := trace w @
           [SpanStarted (spans w) None ''ExecuteRequest'',
            SpanStarted (Suc (spans w)) (Some (spans w)) ''HTTP GET'',
            RequestSent (Suc (spans w)) (demoServerAddr E),
            ErrorRecorded (Suc (spans w)) e,
            SpanEnded (Suc (spans w))],
         spans := Suc (Suc (spans w))\<rparr>)"
  by (simp add: loop_body_def tracer_Start_def makeRequest_def client_Do_def RoundTrip_def
      emit_def demoServerAddr_def Let_def)

lemma loop_body_request_failure:
  "new_request_err r = Some e \<Longrightarrow>
   loop_body E r w =
     (Exited 1,
      w\<lparr>trace := trace w @
           [SpanStarted (spans w) None ''ExecuteRequest'',
            LogFatal (''failed to http request'' @ '': '' @ e)],
         spans := Suc (spans w)\<rparr>)"
  by (simp add: loop_body_def tracer_Start_def makeRequest_def emit_def handleErr_def Let_def)





subsection \<open>The loop after a run of successful requests\<close>

lemma loop_step_succeeded:
  "succeeded r \<Longrightarrow>
   continuouslySendRequests E (r # rs) w =
     continuouslySendRequests E rs (snd (loop_body E r w))"
  by (simp add: loop_body_succeeded)

lemma loop_after_successes:
  "list_all succeeded pre \<Longrightarrow>
   continuouslySendRequests E (pre @ rs) w =
     continuouslySendRequests E rs (snd (continuouslySendRequests E pre w))"
proof (induction pre arbitrary: w)
  case Nil
  show ?case by simp
next
  case (Cons a pre)
  then have a: "succeeded a" and pre: "list_all succeeded pre" by simp_all
  show ?case
    by (simp only: append_Cons loop_step_succeeded [OF a] Cons.IH [OF pre])
qed

lemma loop_body_succeeded_counts:
  assumes "succeeded r"
  shows "count is_request (trace (snd (loop_body E r w))) = Suc (count is_request (trace w))"
    and "count (is_start_named ''ExecuteRequest'') (trace (snd (loop_body E r w)))
      = Suc (count (is_start_named ''ExecuteRequest'') (trace w))"
    and "count is_shutdown (trace (snd (loop_body E r w))) = count is_shutdown (trace w)"
  using assms by (simp_all add: loop_body_succeeded count_def)

lemma counts_after_successes:
  "list_all succeeded pre \<Longrightarrow>
   count is_request (trace (snd (continuouslySendRequests E pre w)))
     = count is_request (trace w) + length pre
   \<and> count (is_start_named ''ExecuteRequest'') (trace (snd (continuouslySendRequests E pre w)))
     = count (is_start_named ''ExecuteRequest'') (trace w) + length pre
   \<and> count is_shutdown (trace (snd (continuouslySendRequests E pre w)))
     = count is_shutdown (trace w)"
proof (induction pre arbitrary: w)
  case Nil
  show ?case by simp
next
  case (Cons a pre)
  then have a: "succeeded a" and pre: "list_all succeeded pre" by simp_all
  show ?case
    using Cons.IH [OF pre, of "snd (loop_body E a w)"]
    by (simp only: loop_step_succeeded [OF a] loop_body_succeeded_counts [OF a]) simp
qed

subsection \<open>The process does not read answers it never asked for\<close>

lemma loop_body_responses [simp]:
  "loop_body (E\<lparr>responses := x\<rparr>) r w = loop_body E r w"
  by (simp add: loop_body_def makeRequest_def)

lemma loop_responses [simp]:
  "continuouslySendRequests (E\<lparr>responses := x\<rparr>) rs w = continuouslySendRequests E rs w"
  by (induction rs arbitrary: w) (simp_all split: prod.split outcome.split)

lemma closeTraces_responses [simp]:
  "closeTraces (E\<lparr>responses := x\<rparr>) = closeTraces E"
  by (intro ext) (simp add: closeTraces_def)

lemma initTraceProvider_responses [simp]:
  "initTraceProvider (E\<lparr>responses := x\<rparr>) w = initTraceProvider E w"
  by (simp add: initTraceProvider_def initTracer_def handleErr_def Let_def split: option.split)

subsection \<open>\<^verbatim>\<open>main\<close> after a successful initialization\<close>

lemma initTraceProvider_initialized:
  "initialized E \<Longrightarrow>
   initTraceProvider E w =
     (Return (closeTraces E 1),
      w\<lparr>trace := trace w @
           [ExporterCreated (otelAgentAddr E), ResourceCreated ''demo-client'',
            PropagatorSet, TracerProviderSet]\<rparr>)"
  by (simp add: initialized_def initTraceProvider_def initTracer_def handleErr_def emit_def
      otelAgentAddr_def Let_def)

text \<open>
  When the first requests succeed, what \<^verbatim>\<open>main\<close> does is decided by the iteration
  that follows them.
\<close>

lemma main_after_successes:
  assumes "initialized E" and "responses E = pre @ r # rest" and "list_all succeeded pre"
  shows "main E =
    (case loop_body E r (snd (continuouslySendRequests E pre (snd (initTraceProvider E initial_world)))) of
       (Return u, w) \<Rightarrow>
         (case continuouslySendRequests E rest w of
            (None, w2) \<Rightarrow> (StillRunning, w2)
          | (Some (Return u), w2) \<Rightarrow> (Terminated 0, closeTraces E 1 w2)
          | (Some (Panicking p), w2) \<Rightarrow> (Terminated 2, closeTraces E 1 w2)
          | (Some (Exited c), w2) \<Rightarrow> (Terminated c, w2))
     | (Panicking p, w) \<Rightarrow> (Terminated 2, closeTraces E 1 w)
     | (Exited c, w) \<Rightarrow> (Terminated c, w))"
proof -
  define w0 where "w0 = snd (initTraceProvider E initial_world)"
  define w1 where "w1 = snd (continuouslySendRequests E pre w0)"
  have init: "initTraceProvider E initial_world = (Return (closeTraces E 1), w0)"
    unfolding w0_def using assms(1) by (simp add: initTraceProvider_initialized)
  have loop: "continuouslySendRequests E (pre @ r # rest) w0 =
      continuouslySendRequests E (r # rest) w1"
    unfolding w1_def by (rule loop_after_successes [OF assms(3)])
  show ?thesis
    unfolding w0_def [symmetric] w1_def [symmetric]
    by (simp add: main_def init assms(2) loop del: One_nat_def split: prod.split outcome.split)
qed

text \<open>
  Claim C5. Take a run that is initialized and in which the requests before some
  iteration all succeed, so that the iteration is reached, and let its request fail in
  transport. Then the process terminates with exit code 2, which is not zero. The
  failing request was sent once and no iteration was started after it: the requests, and
  the spans named \<^verbatim>\<open>ExecuteRequest\<close>, number the successful iterations plus one.
  Whatever the environment would have answered to later requests plays no part.
\<close>

theorem transport_failure_terminates:
  assumes "initialized E" and "responses E = pre @ r # rest" and "list_all succeeded pre"
    and "new_request_err r = None" and "do_err r = Some e"
  shows "fst (main E) = Terminated 2
    \<and> count is_request (trace (snd (main E))) = Suc (length pre)
    \<and> count (is_start_named ''ExecuteRequest'') (trace (snd (main E))) = Suc (length pre)
    \<and> main E = main (E\<lparr>responses := pre @ [r]\<rparr>)"
proof -
  define w0 where "w0 = snd (initTraceProvider E initial_world)"
  define w1 where "w1 = snd (continuouslySendRequests E pre w0)"
  define w2 where "w2 = snd (loop_body E r w1)"
  have body: "loop_body E r w1 = (Panicking (ErrorPanic e), w2)"
    unfolding w2_def by (simp add: loop_body_transport_failure [OF assms(4,5)])
  have run: "main E = (Terminated 2, closeTraces E 1 w2)"
    using main_after_successes [OF assms(1-3)]
    unfolding w0_def [symmetric] w1_def [symmetric] by (simp add: body del: One_nat_def)
  have E': "initialized (E\<lparr>responses := pre @ [r]\<rparr>)"
    "responses (E\<lparr>responses := pre @ [r]\<rparr>) = pre @ r # []"
    using assms(1) by (simp_all add: initialized_def)
  have run': "main (E\<lparr>responses := pre @ [r]\<rparr>) = (Terminated 2, closeTraces E 1 w2)"
    using main_after_successes [OF E' assms(3)]
    unfolding w0_def w1_def by (simp add: body [unfolded w1_def w0_def] del: One_nat_def)
  have w0: "count is_request (trace w0) = 0" "count (is_start_named ''ExecuteRequest'') (trace w0) = 0"
    unfolding w0_def using assms(1)
    by (simp_all add: initTraceProvider_initialized initial_world_def count_def)
  have c1: "count is_request (trace w1) = length pre" "count (is_start_named ''ExecuteRequest'') (trace w1) = length pre"
    unfolding w1_def using counts_after_successes [OF assms(3), of E w0] w0 by simp_all
  have t2: "trace w2 = trace w1 @
      [SpanStarted (spans w1) None ''ExecuteRequest'',
       SpanStarted (Suc (spans w1)) (Some (spans w1)) ''HTTP GET'',
       RequestSent (Suc (spans w1)) (demoServerAddr E),
       ErrorRecorded (Suc (spans w1)) e,
       SpanEnded (Suc (spans w1))]"
    unfolding w2_def by (simp add: loop_body_transport_failure [OF assms(4,5)])
  have c2: "count is_request (trace w2) = Suc (length pre)"
    "count (is_start_named ''ExecuteRequest'') (trace w2) = Suc (length pre)"
    using c1 by (simp_all add: t2 count_def)
  have c3: "count is_request (trace (closeTraces E d w2)) = count is_request (trace w2)"
    "count (is_start_named ''ExecuteRequest'') (trace (closeTraces E d w2))
      = count (is_start_named ''ExecuteRequest'') (trace w2)" for d
    by (simp_all add: closeTraces_def emit_def count_def Let_def split: option.split)
  show ?thesis
    by (simp add: run run' c2 c3)
qed

theorem transport_failure_terminates_witness:
  "initialized (demo_env None [ok_response, refused_response, ok_response])
   \<and> list_all succeeded [ok_response]
   \<and> new_request_err refused_response = None
   \<and> do_err refused_response = Some ''connection refused''
   \<and> fst (main (demo_env None [ok_response, refused_response, ok_response])) = Terminated 2
   \<and> count is_request (trace (snd (main (demo_env None [ok_response, refused_response, ok_response])))) = 2
   \<and> count (is_start_named ''ExecuteRequest'')
       (trace (snd (main (demo_env None [ok_response, refused_response, ok_response])))) = 2"
proof -
  let ?E = "demo_env None [ok_response, refused_response, ok_response]"
  have h1: "initialized ?E" by (simp add: initialized_def demo_env_def)
  have h2: "responses ?E = [ok_response] @ refused_response # [ok_response]"
    by (simp add: demo_env_def)
  have h3: "list_all succeeded [ok_response]" by (simp add: succeeded_def ok_response_def)
  have h4: "new_request_err refused_response = None" by (simp add: refused_response_def)
  have h5: "do_err refused_response = Some ''connection refused''"
    by (simp add: refused_response_def)
  note t = transport_failure_terminates [OF h1 h2 h3 h4 h5]
  show ?thesis
    using h1 h3 h4 h5 t [THEN conjunct1] t [THEN conjunct2, THEN conjunct1]
      t [THEN conjunct2, THEN conjunct2, THEN conjunct1]
    by simp
qed

subsection \<open>The deferred shutdown\<close>

lemmas process_eval =
  main_def initTraceProvider_def initTracer_def handleErr_def closeTraces_def emit_def
  loop_body_def tracer_Start_def makeRequest_def client_Do_def RoundTrip_def Body_Close_def
  SuccessfullyFinishedRequestEvent_def
  initial_world_def initialized_def succeeded_def added_def count_def
  demo_env_def ok_response_def refused_response_def bad_url_response_def Let_def

text \<open>
  Claim C6 says that after a successful initialization the exporter is shut down exactly
  once however the process ends. When \<^verbatim>\<open>DEMO_SERVER_ENDPOINT\<close> holds a URL that does
  not parse, \<^verbatim>\<open>http.NewRequestWithContext\<close> fails, \<^verbatim>\<open>handleErr\<close> calls
  \<^verbatim>\<open>log.Fatalf\<close>, and the process ends with code 1 from inside \<^verbatim>\<open>makeRequest\<close>: the
  deferred \<^verbatim>\<open>shutdown\<close> of \<^verbatim>\<open>main\<close> does not run, and the exporter is never shut down.
\<close>

theorem main_fatal_exit_skips_shutdown:
  "initialized (demo_env (Some ''://'') [bad_url_response])
   \<and> fst (main (demo_env (Some ''://'') [bad_url_response])) = Terminated 1
   \<and> count is_shutdown (trace (snd (main (demo_env (Some ''://'') [bad_url_response])))) = 0"
  by (simp add: process_eval)

text \<open>
  The same holds in every run that reaches a request whose construction fails, while a
  run that ends in the panic of a transport failure shuts the exporter down exactly once.
\<close>

lemma main_request_failure_no_shutdown:
  assumes "initialized E" and "responses E = pre @ r # rest" and "list_all succeeded pre"
    and "new_request_err r = Some e"
  shows "fst (main E) = Terminated 1 \<and> count is_shutdown (trace (snd (main E))) = 0"
proof -
  define w0 where "w0 = snd (initTraceProvider E initial_world)"
  define w1 where "w1 = snd (continuouslySendRequests E pre w0)"
  define w2 where "w2 = snd (loop_body E r w1)"
  have body: "loop_body E r w1 = (Exited 1, w2)"
    unfolding w2_def by (simp add: loop_body_request_failure [OF assms(4)])
  have run: "main E = (Terminated 1, w2)"
    using main_after_successes [OF assms(1-3)]
    unfolding w0_def [symmetric] w1_def [symmetric] by (simp add: body del: One_nat_def)
  have w0: "count is_shutdown (trace w0) = 0"
    unfolding w0_def using assms(1)
    by (simp add: initTraceProvider_initialized initial_world_def count_def)
  have c1: "count is_shutdown (trace w1) = 0"
    unfolding w1_def using counts_after_successes [OF assms(3), of E w0] w0 by simp
  have c2: "count is_shutdown (trace w2) = 0"
    unfolding w2_def using c1 by (simp add: loop_body_request_failure [OF assms(4)] count_def)
  show ?thesis by (simp add: run c2)
qed

lemma main_transport_failure_shutdown_once:
  assumes "initialized E" and "responses E = pre @ r # rest" and "list_all succeeded pre"
    and "new_request_err r = None" and "do_err r = Some e"
  shows "count is_shutdown (trace (snd (main E))) = 1"
proof -
  define w0 where "w0 = snd (initTraceProvider E initial_world)"
  define w1 where "w1 = snd (continuouslySendRequests E pre w0)"
  define w2 where "w2 = snd (loop_body E r w1)"
  have body: "loop_body E r w1 = (Panicking (ErrorPanic e), w2)"
    unfolding w2_def by (simp add: loop_body_transport_failure [OF assms(4,5)])
  have run: "main E = (Terminated 2, closeTraces E 1 w2)"
    using main_after_successes [OF assms(1-3)]
    unfolding w0_def [symmetric] w1_def [symmetric] by (simp add: body del: One_nat_def)
  have w0: "count is_shutdown (trace w0) = 0"
    unfolding w0_def using assms(1)
    by (simp add: initTraceProvider_initialized initial_world_def count_def)
  have c1: "count is_shutdown (trace w1) = 0"
    unfolding w1_def using counts_after_successes [OF assms(3), of E w0] w0 by simp
  have c2: "count is_shutdown (trace w2) = 0"
    unfolding w2_def using c1 by (simp add: loop_body_transport_failure [OF assms(4,5)] count_def)
  have "count is_shutdown (trace (closeTraces E d w2)) = Suc (count is_shutdown (trace w2))" for d
    by (simp add: closeTraces_def emit_def count_def Let_def split: option.split)
  then show ?thesis by (simp add: run c2)
qed

end
